theory Spec2Isabelle
  imports Main "HOL-Library.Monad_Syntax"
begin

section \<open>Logical names (template.go, the const block)\<close>

type_synonym PolicyName = string

definition AWSIAMGroupBootstrapper :: string where
  "AWSIAMGroupBootstrapper = ''AWSIAMGroupBootstrapper''"

definition AWSIAMInstanceProfileControllers :: string where
  "AWSIAMInstanceProfileControllers = ''AWSIAMInstanceProfileControllers''"

definition AWSIAMInstanceProfileControlPlane :: string where
  "AWSIAMInstanceProfileControlPlane = ''AWSIAMInstanceProfileControlPlane''"

definition AWSIAMInstanceProfileNodes :: string where
  "AWSIAMInstanceProfileNodes = ''AWSIAMInstanceProfileNodes''"

definition AWSIAMRoleControllers :: string where
  "AWSIAMRoleControllers = ''AWSIAMRoleControllers''"

definition AWSIAMRoleControlPlane :: string where
  "AWSIAMRoleControlPlane = ''AWSIAMRoleControlPlane''"

definition AWSIAMRoleNodes :: string where
  "AWSIAMRoleNodes = ''AWSIAMRoleNodes''"

definition AWSIAMRoleEKSControlPlane :: string where
  "AWSIAMRoleEKSControlPlane = ''AWSIAMRoleEKSControlPlane''"

definition AWSIAMUserBootstrapper :: string where
  "AWSIAMUserBootstrapper = ''AWSIAMUserBootstrapper''"

definition ControllersPolicy :: PolicyName where
  "ControllersPolicy = ''AWSIAMManagedPolicyControllers''"

definition ControlPlanePolicy :: PolicyName where
  "ControlPlanePolicy = ''AWSIAMManagedPolicyCloudProviderControlPlane''"

definition NodePolicy :: PolicyName where
  "NodePolicy = ''AWSIAMManagedPolicyCloudProviderNodes''"

definition CSIPolicy :: PolicyName where
  "CSIPolicy = ''AWSEBSCSIPolicyController''"

section \<open>The Configuration Spec\<close>

text \<open>
  The declarations of package \<open>bootstrapv1\<close> are not part of \<open>template.go\<close>. The records
  below carry the fields that \<open>template.go\<close> reads, under the names it reads them by. A Go
  pointer is an \<open>option\<close> (\<open>None\<close> is nil): \<open>Template.Spec\<close> is declared a pointer and
  \<open>NameSuffix\<close> is dereferenced with \<open>*\<close>. Every other field is read as a plain value.
  A tag mapping is a Go \<open>map[string]string\<close>, a list of attachments a Go slice.
  Fields of the configuration that \<open>template.go\<close> never reads live in the extension of
  \<open>AWSIAMConfigurationSpec\<close> (the type variable \<open>'z\<close> below).
\<close>

type_synonym Tags = "string \<rightharpoonup> string"

record BootstrapUser =
  Enable :: bool
  UserName :: string
  GroupName :: string
  Tags :: Tags

record ControlPlane =
  DisableCloudProviderPolicy :: bool
  EnableCSIPolicy :: bool
  ExtraPolicyAttachments :: "string list"
  Tags :: Tags

record ClusterAPIControllers =
  Tags :: Tags

record Nodes =
  DisableCloudProviderPolicy :: bool
  ExtraPolicyAttachments :: "string list"
  Tags :: Tags

record ManagedControlPlane =
  Disable :: bool
  Tags :: Tags

record AWSIAMConfigurationSpec =
  NamePrefix :: string
  NameSuffix :: "string option"
  BootstrapUser :: BootstrapUser
  ControlPlane :: ControlPlane
  ClusterAPIControllers :: ClusterAPIControllers
  Nodes :: Nodes
  ManagedControlPlane :: ManagedControlPlane

record 'z Template =
  Spec :: "'z AWSIAMConfigurationSpec_scheme option"

section \<open>Policy documents (package iamv1)\<close>

text \<open>
  Modelled from the spec: the type declarations of package \<open>iamv1\<close> are not part of
  \<open>template.go\<close>. A Policy Document is a versioned container of statements; a statement
  has an effect (allow or deny), a principal (a service or an AWS account identity), a
  list of actions and optionally a list of resources. \<open>Principals\<close> is the Go map from
  principal type to a list of identifiers. A field that a struct literal leaves out holds
  Go's zero value (the empty map, the empty list).
\<close>

datatype Effect = EffectAllow | EffectDeny

datatype PrincipalType = PrincipalAWS | PrincipalService

type_synonym PrincipalID = "string list"

type_synonym Principals = "PrincipalType \<rightharpoonup> PrincipalID"

type_synonym Actions = "string list"

record StatementEntry =
  Effect :: Effect
  Principal :: Principals
  Action :: Actions
  Resource :: "string list"

record PolicyDocument =
  Version :: string
  Statement :: "StatementEntry list"

section \<open>CloudFormation resources (packages cloudformation and cfn_iam)\<close>

text \<open>
  The structs of the goformation library, with the fields that \<open>template.go\<close> sets. A field
  that a struct literal leaves out is the empty list.
\<close>

record Tag =
  Key :: string
  Value :: string

record User_Policy =
  PolicyName :: string
  PolicyDocument :: PolicyDocument

record Role_Policy =
  PolicyName :: string
  PolicyDocument :: PolicyDocument

record User =
  UserName :: string
  Groups :: "string list"
  ManagedPolicyArns :: "string list"
  Policies :: "User_Policy list"
  Tags :: "Tag list"

record Group =
  GroupName :: string

record ManagedPolicy =
  ManagedPolicyName :: string
  Description :: string
  PolicyDocument :: PolicyDocument
  Groups :: "string list"
  Roles :: "string list"

record Role =
  RoleName :: string
  AssumeRolePolicyDocument :: PolicyDocument
  ManagedPolicyArns :: "string list"
  Policies :: "Role_Policy list"
  Tags :: "Tag list"

record InstanceProfile =
  InstanceProfileName :: string
  Roles :: "string list"

text \<open>The interface \<open>cloudformation.Resource\<close>, with its five implementations used here.\<close>

datatype Resource =
    AWS_IAM_User User
  | AWS_IAM_Group Group
  | AWS_IAM_ManagedPolicy ManagedPolicy
  | AWS_IAM_Role Role
  | AWS_IAM_InstanceProfile InstanceProfile

text \<open>
  \<open>cloudformation.Template\<close>: of its fields, \<open>RenderCloudFormation\<close> touches only the
  map \<open>Resources\<close> from logical name to resource; \<open>cloudformation.NewTemplate()\<close>
  returns a template whose map is empty.
\<close>

record cloudformation_Template =
  Resources :: "string \<rightharpoonup> Resource"

definition cloudformation_NewTemplate :: cloudformation_Template where
  "cloudformation_NewTemplate = \<lparr>Resources = Map.empty\<rparr>"

section \<open>What the file takes from the rest of the repository\<close>

text \<open>
  \<open>template.go\<close> calls methods of \<open>Template\<close> and functions that other files define
  (the permission catalogs, the attachment lists, the trust policies of the three roles,
  \<open>converters.MapToCloudFormationTags\<close>), reads two constants of other packages
  (\<open>iamv1.CurrentVersion\<close>, \<open>infrav1exp.DefaultEKSControlPlaneRole\<close>) and calls
  \<open>cloudformation.Ref\<close> of the goformation library. None of them is in \<open>template.go\<close>,
  so each is a parameter: a field of the record \<open>externals\<close>, of the type its use in
  \<open>template.go\<close> shows, total (it returns a value for every argument). A method with
  receiver \<open>t\<close> takes the template.
\<close>

record 'z externals =
  Ref :: "string \<Rightarrow> string"
  MapToCloudFormationTags :: "Tags \<Rightarrow> Tag list"
  CurrentVersion :: string
  DefaultEKSControlPlaneRole :: string
  bootstrapUserGroups :: "'z Template \<Rightarrow> string list"
  bootstrapUserPolicy :: "'z Template \<Rightarrow> User_Policy list"
  controllersPolicy :: "'z Template \<Rightarrow> PolicyDocument"
  controllersPolicyGroups :: "'z Template \<Rightarrow> string list"
  controllersPolicyRoleAttachments :: "'z Template \<Rightarrow> string list"
  cloudProviderControlPlaneAwsPolicy :: "'z Template \<Rightarrow> PolicyDocument"
  cloudProviderControlPlaneAwsRoles :: "'z Template \<Rightarrow> string list"
  nodePolicy :: "'z Template \<Rightarrow> PolicyDocument"
  cloudProviderNodeAwsRoles :: "'z Template \<Rightarrow> string list"
  csiControllerPolicy :: "'z Template \<Rightarrow> PolicyDocument"
  csiControlPlaneAwsRoles :: "'z Template \<Rightarrow> string list"
  controlPlaneTrustPolicy :: "'z Template \<Rightarrow> PolicyDocument"
  controlPlanePolicies :: "'z Template \<Rightarrow> Role_Policy list"
  controllersTrustPolicy :: "'z Template \<Rightarrow> PolicyDocument"
  nodeTrustPolicy :: "'z Template \<Rightarrow> PolicyDocument"
  nodePolicies :: "'z Template \<Rightarrow> Role_Policy list"
  eksAssumeRolePolicy :: PolicyDocument
  eksControlPlanePolicies :: "'z Template \<Rightarrow> string list"

section \<open>The functions of template.go\<close>

text \<open>
  A nil dereference panics; the panic is the value \<open>None\<close>. \<open>NewManagedName\<close> reads
  \<open>t.Spec.NamePrefix\<close> (through the pointer \<open>t.Spec\<close>) and \<open>*t.Spec.NameSuffix\<close>;
  \<open>fmt.Sprintf("%s%s%s", ...)\<close> on three strings is their concatenation.
\<close>

definition NewManagedName :: "'z Template \<Rightarrow> string \<Rightarrow> string option" where
  "NewManagedName t name = do {
     s \<leftarrow> Spec t;
     suffix \<leftarrow> NameSuffix s;
     Some (NamePrefix s @ name @ suffix)
   }"

definition assumeRolePolicy :: "'z externals \<Rightarrow> string \<Rightarrow> PolicyDocument" where
  "assumeRolePolicy e principalID =
     \<lparr>Version = CurrentVersion e,
      Statement = [
        \<lparr>Effect = EffectAllow,
         Principal = [PrincipalService \<mapsto> [principalID]],
         Action = [''sts:AssumeRole''],
         Resource = []\<rparr>
      ]\<rparr>"

definition ec2AssumeRolePolicy :: "'z externals \<Rightarrow> PolicyDocument" where
  "ec2AssumeRolePolicy e = assumeRolePolicy e ''ec2.amazonaws.com''"

text \<open>The assignment \<open>template.Resources[k] = r\<close>.\<close>

definition set_Resource ::
  "string \<Rightarrow> Resource \<Rightarrow> cloudformation_Template \<Rightarrow> cloudformation_Template" where
  "set_Resource k r template = template\<lparr>Resources := (Resources template)(k \<mapsto> r)\<rparr>"

text \<open>
  \<open>RenderCloudFormation\<close>, statement by statement. The first statement reads
  \<open>t.Spec.BootstrapUser.Enable\<close> through the pointer \<open>t.Spec\<close>; every call of
  \<open>NewManagedName\<close> may panic.
\<close>

definition RenderCloudFormation ::
  "'z externals \<Rightarrow> 'z Template \<Rightarrow> cloudformation_Template option" where
  "RenderCloudFormation e t = do {
     s \<leftarrow> Spec t;
     let template = cloudformation_NewTemplate;
     let template =
       (if Enable (BootstrapUser s) then
          set_Resource AWSIAMGroupBootstrapper
            (AWS_IAM_Group \<lparr>Group.GroupName = BootstrapUser.GroupName (BootstrapUser s)\<rparr>)
            (set_Resource AWSIAMUserBootstrapper
              (AWS_IAM_User
                \<lparr>User.UserName = BootstrapUser.UserName (BootstrapUser s),
                 User.Groups = bootstrapUserGroups e t,
                 User.ManagedPolicyArns = ControlPlane.ExtraPolicyAttachments (ControlPlane s),
                 User.Policies = bootstrapUserPolicy e t,
                 User.Tags = MapToCloudFormationTags e (BootstrapUser.Tags (BootstrapUser s))\<rparr>)
              template)
        else template);
     name \<leftarrow> NewManagedName t ''controllers'';
     let template = set_Resource ControllersPolicy
       (AWS_IAM_ManagedPolicy
         \<lparr>ManagedPolicyName = name,
          Description = ''For the Kubernetes Cluster API Provider AWS Controllers'',
          ManagedPolicy.PolicyDocument = controllersPolicy e t,
          ManagedPolicy.Groups = controllersPolicyGroups e t,
          ManagedPolicy.Roles = controllersPolicyRoleAttachments e t\<rparr>)
       template;
     template \<leftarrow>
       (if \<not> ControlPlane.DisableCloudProviderPolicy (ControlPlane s) then do {
          name \<leftarrow> NewManagedName t ''control-plane'';
          Some (set_Resource ControlPlanePolicy
            (AWS_IAM_ManagedPolicy
              \<lparr>ManagedPolicyName = name,
               Description = ''For the Kubernetes Cloud Provider AWS Control Plane'',
               ManagedPolicy.PolicyDocument = cloudProviderControlPlaneAwsPolicy e t,
               ManagedPolicy.Groups = [],
               ManagedPolicy.Roles = cloudProviderControlPlaneAwsRoles e t\<rparr>)
            template)
        } else Some template);
     template \<leftarrow>
       (if \<not> Nodes.DisableCloudProviderPolicy (Nodes s) then do {
          name \<leftarrow> NewManagedName t ''nodes'';
          Some (set_Resource NodePolicy
            (AWS_IAM_ManagedPolicy
              \<lparr>ManagedPolicyName = name,
               Description = ''For the Kubernetes Cloud Provider AWS nodes'',
               ManagedPolicy.PolicyDocument = nodePolicy e t,
               ManagedPolicy.Groups = [],
               ManagedPolicy.Roles = cloudProviderNodeAwsRoles e t\<rparr>)
            template)
        } else Some template);
     template \<leftarrow>
       (if EnableCSIPolicy (ControlPlane s) then do {
          name \<leftarrow> NewManagedName t ''csi'';
          Some (set_Resource CSIPolicy
            (AWS_IAM_ManagedPolicy
              \<lparr>ManagedPolicyName = name,
               Description = ''For the AWS EBS CSI Driver for Kubernetes'',
               ManagedPolicy.PolicyDocument = csiControllerPolicy e t,
               ManagedPolicy.Groups = [],
               ManagedPolicy.Roles = csiControlPlaneAwsRoles e t\<rparr>)
            template)
        } else Some template);
     name \<leftarrow> NewManagedName t ''control-plane'';
     let template = set_Resource AWSIAMRoleControlPlane
       (AWS_IAM_Role
         \<lparr>RoleName = name,
          AssumeRolePolicyDocument = controlPlaneTrustPolicy e t,
          Role.ManagedPolicyArns = ControlPlane.ExtraPolicyAttachments (ControlPlane s),
          Role.Policies = controlPlanePolicies e t,
          Role.Tags = MapToCloudFormationTags e (ControlPlane.Tags (ControlPlane s))\<rparr>)
       template;
     name \<leftarrow> NewManagedName t ''controllers'';
     let template = set_Resource AWSIAMRoleControllers
       (AWS_IAM_Role
         \<lparr>RoleName = name,
          AssumeRolePolicyDocument = controllersTrustPolicy e t,
          Role.ManagedPolicyArns = [],
          Role.Policies = [],
          Role.Tags =
            MapToCloudFormationTags e (ClusterAPIControllers.Tags (ClusterAPIControllers s))\<rparr>)
       template;
     name \<leftarrow> NewManagedName t ''nodes'';
     let template = set_Resource AWSIAMRoleNodes
       (AWS_IAM_Role
         \<lparr>RoleName = name,
          AssumeRolePolicyDocument = nodeTrustPolicy e t,
          Role.ManagedPolicyArns = Nodes.ExtraPolicyAttachments (Nodes s),
          Role.Policies = nodePolicies e t,
          Role.Tags = MapToCloudFormationTags e (Nodes.Tags (Nodes s))\<rparr>)
       template;
     name \<leftarrow> NewManagedName t ''control-plane'';
     let template = set_Resource AWSIAMInstanceProfileControlPlane
       (AWS_IAM_InstanceProfile
         \<lparr>InstanceProfileName = name,
          InstanceProfile.Roles = [Ref e AWSIAMRoleControlPlane]\<rparr>)
       template;
     name \<leftarrow> NewManagedName t ''controllers'';
     let template = set_Resource AWSIAMInstanceProfileControllers
       (AWS_IAM_InstanceProfile
         \<lparr>InstanceProfileName = name,
          InstanceProfile.Roles = [Ref e AWSIAMRoleControllers]\<rparr>)
       template;
     name \<leftarrow> NewManagedName t ''nodes'';
     let template = set_Resource AWSIAMInstanceProfileNodes
       (AWS_IAM_InstanceProfile
         \<lparr>InstanceProfileName = name,
          InstanceProfile.Roles = [Ref e AWSIAMRoleNodes]\<rparr>)
       template;
     let template =
       (if \<not> Disable (ManagedControlPlane s) then
          set_Resource AWSIAMRoleEKSControlPlane
            (AWS_IAM_Role
              \<lparr>RoleName = DefaultEKSControlPlaneRole e,
               AssumeRolePolicyDocument = eksAssumeRolePolicy e,
               Role.ManagedPolicyArns = eksControlPlanePolicies e t,
               Role.Policies = [],
               Role.Tags =
                 MapToCloudFormationTags e (ManagedControlPlane.Tags (ManagedControlPlane s))\<rparr>)
            template
        else template);
     Some template
   }"

text \<open>
  \<open>RenderCloudFormation\<close> once more, statement by statement, with a log of what it
  executes: an assignment \<open>template.Resources[k] = r\<close> also appends \<open>(k, r)\<close> to the
  list of the assignments executed so far. The state \<open>st\<close> is the template and that
  list; the list is empty at the start.
\<close>

definition assign ::
  "string \<Rightarrow> Resource \<Rightarrow> cloudformation_Template \<times> (string \<times> Resource) list \<Rightarrow>
   cloudformation_Template \<times> (string \<times> Resource) list" where
  "assign k r st = (set_Resource k r (fst st), snd st @ [(k, r)])"

definition RenderCloudFormation_steps ::
  "'z externals \<Rightarrow> 'z Template \<Rightarrow>
   (cloudformation_Template \<times> (string \<times> Resource) list) option" where
  "RenderCloudFormation_steps e t = do {
     s \<leftarrow> Spec t;
     let st = (cloudformation_NewTemplate, []);
     let st =
       (if Enable (BootstrapUser s) then
          assign AWSIAMGroupBootstrapper
            (AWS_IAM_Group \<lparr>Group.GroupName = BootstrapUser.GroupName (BootstrapUser s)\<rparr>)
            (assign AWSIAMUserBootstrapper
              (AWS_IAM_User
                \<lparr>User.UserName = BootstrapUser.UserName (BootstrapUser s),
                 User.Groups = bootstrapUserGroups e t,
                 User.ManagedPolicyArns = ControlPlane.ExtraPolicyAttachments (ControlPlane s),
                 User.Policies = bootstrapUserPolicy e t,
                 User.Tags = MapToCloudFormationTags e (BootstrapUser.Tags (BootstrapUser s))\<rparr>)
              st)
        else st);
     name \<leftarrow> NewManagedName t ''controllers'';
     let st = assign ControllersPolicy
       (AWS_IAM_ManagedPolicy
         \<lparr>ManagedPolicyName = name,
          Description = ''For the Kubernetes Cluster API Provider AWS Controllers'',
          ManagedPolicy.PolicyDocument = controllersPolicy e t,
          ManagedPolicy.Groups = controllersPolicyGroups e t,
          ManagedPolicy.Roles = controllersPolicyRoleAttachments e t\<rparr>)
       st;
     st \<leftarrow>
       (if \<not> ControlPlane.DisableCloudProviderPolicy (ControlPlane s) then do {
          name \<leftarrow> NewManagedName t ''control-plane'';
          Some (assign ControlPlanePolicy
            (AWS_IAM_ManagedPolicy
              \<lparr>ManagedPolicyName = name,
               Description = ''For the Kubernetes Cloud Provider AWS Control Plane'',
               ManagedPolicy.PolicyDocument = cloudProviderControlPlaneAwsPolicy e t,
               ManagedPolicy.Groups = [],
               ManagedPolicy.Roles = cloudProviderControlPlaneAwsRoles e t\<rparr>)
            st)
        } else Some st);
     st \<leftarrow>
       (if \<not> Nodes.DisableCloudProviderPolicy (Nodes s) then do {
          name \<leftarrow> NewManagedName t ''nodes'';
          Some (assign NodePolicy
            (AWS_IAM_ManagedPolicy
              \<lparr>ManagedPolicyName = name,
               Description = ''For the Kubernetes Cloud Provider AWS nodes'',
               ManagedPolicy.PolicyDocument = nodePolicy e t,
               ManagedPolicy.Groups = [],
               ManagedPolicy.Roles = cloudProviderNodeAwsRoles e t\<rparr>)
            st)
        } else Some st);
     st \<leftarrow>
       (if EnableCSIPolicy (ControlPlane s) then do {
          name \<leftarrow> NewManagedName t ''csi'';
          Some (assign CSIPolicy
            (AWS_IAM_ManagedPolicy
              \<lparr>ManagedPolicyName = name,
               Description = ''For the AWS EBS CSI Driver for Kubernetes'',
               ManagedPolicy.PolicyDocument = csiControllerPolicy e t,
               ManagedPolicy.Groups = [],
               ManagedPolicy.Roles = csiControlPlaneAwsRoles e t\<rparr>)
            st)
        } else Some st);
     name \<leftarrow> NewManagedName t ''control-plane'';
     let st = assign AWSIAMRoleControlPlane
       (AWS_IAM_Role
         \<lparr>RoleName = name,
          AssumeRolePolicyDocument = controlPlaneTrustPolicy e t,
          Role.ManagedPolicyArns = ControlPlane.ExtraPolicyAttachments (ControlPlane s),
          Role.Policies = controlPlanePolicies e t,
          Role.Tags = MapToCloudFormationTags e (ControlPlane.Tags (ControlPlane s))\<rparr>)
       st;
     name \<leftarrow> NewManagedName t ''controllers'';
     let st = assign AWSIAMRoleControllers
       (AWS_IAM_Role
         \<lparr>RoleName = name,
          AssumeRolePolicyDocument = controllersTrustPolicy e t,
          Role.ManagedPolicyArns = [],
          Role.Policies = [],
          Role.Tags =
            MapToCloudFormationTags e (ClusterAPIControllers.Tags (ClusterAPIControllers s))\<rparr>)
       st;
     name \<leftarrow> NewManagedName t ''nodes'';
     let st = assign AWSIAMRoleNodes
       (AWS_IAM_Role
         \<lparr>RoleName = name,
          AssumeRolePolicyDocument = nodeTrustPolicy e t,
          Role.ManagedPolicyArns = Nodes.ExtraPolicyAttachments (Nodes s),
          Role.Policies = nodePolicies e t,
          Role.Tags = MapToCloudFormationTags e (Nodes.Tags (Nodes s))\<rparr>)
       st;
     name \<leftarrow> NewManagedName t ''control-plane'';
     let st = assign AWSIAMInstanceProfileControlPlane
       (AWS_IAM_InstanceProfile
         \<lparr>InstanceProfileName = name,
          InstanceProfile.Roles = [Ref e AWSIAMRoleControlPlane]\<rparr>)
       st;
     name \<leftarrow> NewManagedName t ''controllers'';
     let st = assign AWSIAMInstanceProfileControllers
       (AWS_IAM_InstanceProfile
         \<lparr>InstanceProfileName = name,
          InstanceProfile.Roles = [Ref e AWSIAMRoleControllers]\<rparr>)
       st;
     name \<leftarrow> NewManagedName t ''nodes'';
     let st = assign AWSIAMInstanceProfileNodes
       (AWS_IAM_InstanceProfile
         \<lparr>InstanceProfileName = name,
          InstanceProfile.Roles = [Ref e AWSIAMRoleNodes]\<rparr>)
       st;
     let st =
       (if \<not> Disable (ManagedControlPlane s) then
          assign AWSIAMRoleEKSControlPlane
            (AWS_IAM_Role
              \<lparr>RoleName = DefaultEKSControlPlaneRole e,
               AssumeRolePolicyDocument = eksAssumeRolePolicy e,
               Role.ManagedPolicyArns = eksControlPlanePolicies e t,
               Role.Policies = [],
               Role.Tags =
                 MapToCloudFormationTags e (ManagedControlPlane.Tags (ManagedControlPlane s))\<rparr>)
            st
        else st);
     Some st
   }"

text \<open>The log agrees with the map: a later assignment to a key hides an earlier one.\<close>

definition log_agrees :: "cloudformation_Template \<times> (string \<times> Resource) list \<Rightarrow> bool" where
  "log_agrees st = (Resources (fst st) = map_of (rev (snd st)))"

section \<open>Counting resources by kind\<close>

text \<open>The logical names under which a template holds a Role, and an InstanceProfile.\<close>

definition Role_names :: "cloudformation_Template \<Rightarrow> string set" where
  "Role_names m = {k. \<exists>r. Resources m k = Some (AWS_IAM_Role r)}"

definition InstanceProfile_names :: "cloudformation_Template \<Rightarrow> string set" where
  "InstanceProfile_names m = {k. \<exists>p. Resources m k = Some (AWS_IAM_InstanceProfile p)}"

section \<open>A concrete configuration\<close>

text \<open>
  A configuration on which the model runs: prefix \<open>test-\<close>, suffix \<open>.cluster-api\<close>,
  the bootstrap user enabled, both cloud-provider policies and the CSI policy emitted,
  the managed control plane not disabled. The functions of the other files are replaced by
  stand-ins that return fixed values.
\<close>

definition example_document :: PolicyDocument where
  "example_document = \<lparr>Version = ''2012-10-17'', Statement = []\<rparr>"

definition example_externals :: "unit externals" where
  "example_externals =
     \<lparr>Ref = (\<lambda>name. ''Ref '' @ name),
      MapToCloudFormationTags = (\<lambda>tags. []),
      CurrentVersion = ''2012-10-17'',
      DefaultEKSControlPlaneRole = ''eks-controlplane'',
      bootstrapUserGroups = (\<lambda>t. [''Ref AWSIAMGroupBootstrapper'']),
      bootstrapUserPolicy = (\<lambda>t. []),
      controllersPolicy = (\<lambda>t. example_document),
      controllersPolicyGroups = (\<lambda>t. [''Ref AWSIAMGroupBootstrapper'']),
      controllersPolicyRoleAttachments = (\<lambda>t. [''Ref AWSIAMRoleControllers'']),
      cloudProviderControlPlaneAwsPolicy = (\<lambda>t. example_document),
      cloudProviderControlPlaneAwsRoles = (\<lambda>t. [''Ref AWSIAMRoleControlPlane'']),
      nodePolicy = (\<lambda>t. example_document),
      cloudProviderNodeAwsRoles = (\<lambda>t. [''Ref AWSIAMRoleNodes'']),
      csiControllerPolicy = (\<lambda>t. example_document),
      csiControlPlaneAwsRoles = (\<lambda>t. [''Ref AWSIAMRoleControlPlane'']),
      controlPlaneTrustPolicy = (\<lambda>t. example_document),
      controlPlanePolicies = (\<lambda>t. []),
      controllersTrustPolicy = (\<lambda>t. example_document),
      nodeTrustPolicy = (\<lambda>t. example_document),
      nodePolicies = (\<lambda>t. []),
      eksAssumeRolePolicy = example_document,
      eksControlPlanePolicies = (\<lambda>t. [''arn:aws:iam::aws:policy/AmazonEKSClusterPolicy''])\<rparr>"

definition example_Spec :: AWSIAMConfigurationSpec where
  "example_Spec =
     \<lparr>NamePrefix = ''test-'',
      NameSuffix = Some ''.cluster-api'',
      BootstrapUser =
        \<lparr>Enable = True,
         BootstrapUser.UserName = ''bootstrapper'',
         BootstrapUser.GroupName = ''bootstrappers'',
         BootstrapUser.Tags = Map.empty\<rparr>,
      ControlPlane =
        \<lparr>ControlPlane.DisableCloudProviderPolicy = False,
         EnableCSIPolicy = True,
         ControlPlane.ExtraPolicyAttachments = [''arn:aws:iam::aws:policy/Extra''],
         ControlPlane.Tags = Map.empty\<rparr>,
      ClusterAPIControllers = \<lparr>ClusterAPIControllers.Tags = Map.empty\<rparr>,
      Nodes =
        \<lparr>Nodes.DisableCloudProviderPolicy = False,
         Nodes.ExtraPolicyAttachments = [],
         Nodes.Tags = Map.empty\<rparr>,
      ManagedControlPlane =
        \<lparr>Disable = False,
         ManagedControlPlane.Tags = Map.empty\<rparr>\<rparr>"

definition example_Template :: "unit Template" where
  "example_Template = \<lparr>Spec = Some example_Spec\<rparr>"

section \<open>Evaluating the model\<close>

lemma logical_names_distinct:
  "distinct
    [AWSIAMUserBootstrapper, AWSIAMGroupBootstrapper, ControllersPolicy,
     ControlPlanePolicy, NodePolicy, CSIPolicy, AWSIAMRoleControlPlane,
     AWSIAMRoleControllers, AWSIAMRoleNodes, AWSIAMInstanceProfileControlPlane,
     AWSIAMInstanceProfileControllers, AWSIAMInstanceProfileNodes,
     AWSIAMRoleEKSControlPlane]"
  by (simp add: AWSIAMGroupBootstrapper_def AWSIAMInstanceProfileControllers_def
      AWSIAMInstanceProfileControlPlane_def AWSIAMInstanceProfileNodes_def
      AWSIAMRoleControllers_def AWSIAMRoleControlPlane_def AWSIAMRoleNodes_def
      AWSIAMRoleEKSControlPlane_def AWSIAMUserBootstrapper_def ControllersPolicy_def
      ControlPlanePolicy_def NodePolicy_def CSIPolicy_def)

lemma logical_names_distinct_rev:
  "distinct (rev
    [AWSIAMUserBootstrapper, AWSIAMGroupBootstrapper, ControllersPolicy,
     ControlPlanePolicy, NodePolicy, CSIPolicy, AWSIAMRoleControlPlane,
     AWSIAMRoleControllers, AWSIAMRoleNodes, AWSIAMInstanceProfileControlPlane,
     AWSIAMInstanceProfileControllers, AWSIAMInstanceProfileNodes,
     AWSIAMRoleEKSControlPlane])"
  using logical_names_distinct by (simp only: distinct_rev)

text \<open>Every inequation between two logical names, in both directions.\<close>

lemmas names_neq =
  logical_names_distinct [simplified]
  logical_names_distinct_rev [simplified]

lemma NewManagedName_eval:
  "Spec t = Some s \<Longrightarrow> NameSuffix s = Some x \<Longrightarrow>
   NewManagedName t name = Some (NamePrefix s @ name @ x)"
  by (simp add: NewManagedName_def)

lemma NewManagedName_nil:
  "Spec t = Some s \<Longrightarrow> NameSuffix s = None \<Longrightarrow> NewManagedName t name = None"
  by (simp add: NewManagedName_def)

lemma if_Some: "(if c then Some a else Some b) = Some (if c then a else b)"
  by simp

lemma Resources_set_Resource:
  "Resources (set_Resource k r m) k' = (if k' = k then Some r else Resources m k')"
  by (simp add: set_Resource_def)

lemma Resources_if_set:
  "Resources (if c then set_Resource k r m else m) k' =
   (if c \<and> k' = k then Some r else Resources m k')"
  by (simp add: set_Resource_def)

lemma Resources_if_set_else:
  "Resources (if c then m else set_Resource k r m) k' =
   (if \<not> c \<and> k' = k then Some r else Resources m k')"
  by (simp add: set_Resource_def)

lemma Resources_if_set2:
  "Resources (if c then set_Resource k r (set_Resource j q m) else m) k' =
   (if c \<and> k' = k then Some r else if c \<and> k' = j then Some q else Resources m k')"
  by (simp add: set_Resource_def)

lemmas Render_simps =
  RenderCloudFormation_def NewManagedName_eval Let_def if_Some Resources_set_Resource
  Resources_if_set Resources_if_set_else Resources_if_set2 cloudformation_NewTemplate_def

lemma Render_returns:
  assumes "Spec t = Some s" "NameSuffix s = Some x"
  shows "\<exists>m. RenderCloudFormation e t = Some m"
  using assms by (simp add: RenderCloudFormation_def NewManagedName_eval Let_def if_Some)

lemma Render_nil_Spec: "Spec t = None \<Longrightarrow> RenderCloudFormation e t = None"
  by (simp add: RenderCloudFormation_def)

lemma Render_nil_NameSuffix:
  "Spec t = Some s \<Longrightarrow> NameSuffix s = None \<Longrightarrow> RenderCloudFormation e t = None"
  by (simp add: RenderCloudFormation_def NewManagedName_nil Let_def)

lemma Render_in_dom:
  assumes "Spec t = Some s" "NameSuffix s = Some x"
  shows "Resources (the (RenderCloudFormation e t)) k \<noteq> None \<longleftrightarrow>
    (k = AWSIAMUserBootstrapper \<and> Enable (BootstrapUser s)) \<or>
    (k = AWSIAMGroupBootstrapper \<and> Enable (BootstrapUser s)) \<or>
    k = ControllersPolicy \<or>
    (k = ControlPlanePolicy \<and> \<not> ControlPlane.DisableCloudProviderPolicy (ControlPlane s)) \<or>
    (k = NodePolicy \<and> \<not> Nodes.DisableCloudProviderPolicy (Nodes s)) \<or>
    (k = CSIPolicy \<and> EnableCSIPolicy (ControlPlane s)) \<or>
    k = AWSIAMRoleControlPlane \<or> k = AWSIAMRoleControllers \<or> k = AWSIAMRoleNodes \<or>
    k = AWSIAMInstanceProfileControlPlane \<or> k = AWSIAMInstanceProfileControllers \<or>
    k = AWSIAMInstanceProfileNodes \<or>
    (k = AWSIAMRoleEKSControlPlane \<and> \<not> Disable (ManagedControlPlane s))"
  using assms by (auto simp add: Render_simps names_neq cong: if_cong)

lemma Render_Role_iff:
  assumes "Spec t = Some s" "NameSuffix s = Some x"
  shows "(\<exists>r. Resources (the (RenderCloudFormation e t)) k = Some (AWS_IAM_Role r)) \<longleftrightarrow>
    k = AWSIAMRoleControlPlane \<or> k = AWSIAMRoleControllers \<or> k = AWSIAMRoleNodes \<or>
    (k = AWSIAMRoleEKSControlPlane \<and> \<not> Disable (ManagedControlPlane s))"
  using assms by (simp add: Render_simps names_neq)

lemma Render_InstanceProfile_iff:
  assumes "Spec t = Some s" "NameSuffix s = Some x"
  shows "(\<exists>p. Resources (the (RenderCloudFormation e t)) k = Some (AWS_IAM_InstanceProfile p)) \<longleftrightarrow>
    k = AWSIAMInstanceProfileControlPlane \<or> k = AWSIAMInstanceProfileControllers \<or>
    k = AWSIAMInstanceProfileNodes"
  using assms by (simp add: Render_simps names_neq)

lemma Render_InstanceProfile_Roles:
  assumes "Spec t = Some s" "NameSuffix s = Some x"
    and "Resources (the (RenderCloudFormation e t)) k = Some (AWS_IAM_InstanceProfile p)"
  shows "InstanceProfile.Roles p = [Ref e AWSIAMRoleControlPlane] \<or>
         InstanceProfile.Roles p = [Ref e AWSIAMRoleControllers] \<or>
         InstanceProfile.Roles p = [Ref e AWSIAMRoleNodes]"
  using assms by (auto simp add: Render_simps names_neq split: if_splits cong: if_cong)

lemma Render_no_User_Group:
  assumes "Spec t = Some s" "NameSuffix s = Some x" "\<not> Enable (BootstrapUser s)"
  shows "Resources (the (RenderCloudFormation e t)) k \<noteq> Some (AWS_IAM_User u)"
    and "Resources (the (RenderCloudFormation e t)) k \<noteq> Some (AWS_IAM_Group g)"
  using assms by (simp_all add: Render_simps names_neq)

lemma example_Spec_nonnil: "Spec example_Template = Some example_Spec"
  by (simp add: example_Template_def)

lemma example_NameSuffix: "NameSuffix example_Spec = Some ''.cluster-api''"
  by (simp add: example_Spec_def)

text \<open>The logged run: its template is the one \<open>RenderCloudFormation\<close> returns.\<close>

lemma fst_assign: "fst (assign k r st) = set_Resource k r (fst st)"
  by (simp add: assign_def)

lemma fst_if: "fst (if c then a else b) = (if c then fst a else fst b)"
  by simp

lemma Render_steps_nil_NameSuffix:
  "Spec t = Some s \<Longrightarrow> NameSuffix s = None \<Longrightarrow> RenderCloudFormation_steps e t = None"
  by (simp add: RenderCloudFormation_steps_def NewManagedName_nil Let_def)

lemma Render_steps_fst:
  "map_option fst (RenderCloudFormation_steps e t) = RenderCloudFormation e t"
proof (cases "Spec t")
  case None
  then show ?thesis
    by (simp add: RenderCloudFormation_steps_def RenderCloudFormation_def)
next
  case (Some s)
  show ?thesis
  proof (cases "NameSuffix s")
    case None
    with Some show ?thesis
      by (simp add: Render_steps_nil_NameSuffix Render_nil_NameSuffix)
  next
    case (Some x)
    with \<open>Spec t = Some s\<close> show ?thesis
      by (simp add: RenderCloudFormation_steps_def RenderCloudFormation_def
          NewManagedName_eval Let_def if_Some fst_assign fst_if
          cong: if_cong split del: if_split)
  qed
qed

lemma log_agrees_init: "log_agrees (cloudformation_NewTemplate, [])"
  by (simp add: log_agrees_def cloudformation_NewTemplate_def)

lemma log_agrees_assign: "log_agrees st \<Longrightarrow> log_agrees (assign k r st)"
  by (simp add: log_agrees_def assign_def set_Resource_def)

lemma log_agrees_if: "log_agrees a \<Longrightarrow> log_agrees b \<Longrightarrow> log_agrees (if c then a else b)"
  by simp

lemma Render_steps_log_agrees:
  assumes "Spec t = Some s" "NameSuffix s = Some x"
  shows "log_agrees (the (RenderCloudFormation_steps e t))"
  using assms
  by (simp add: RenderCloudFormation_steps_def NewManagedName_eval Let_def if_Some
      log_agrees_init log_agrees_assign log_agrees_if cong: if_cong split del: if_split)

lemma snd_assign: "snd (assign k r st) = snd st @ [(k, r)]"
  by (simp add: assign_def)

lemma snd_if_assign:
  "snd (if c then assign k r st else st) = snd st @ (if c then [(k, r)] else [])"
  by (simp add: assign_def)

lemma snd_if_assign_else:
  "snd (if c then st else assign k r st) = snd st @ (if c then [] else [(k, r)])"
  by (simp add: assign_def)

lemma snd_if_assign2:
  "snd (if c then assign k r (assign j q st) else st) =
   snd st @ (if c then [(j, q), (k, r)] else [])"
  by (simp add: assign_def)

lemma Render_steps_keys:
  assumes "Spec t = Some s" "NameSuffix s = Some x"
  shows "map fst (snd (the (RenderCloudFormation_steps e t))) =
    (if Enable (BootstrapUser s)
     then [AWSIAMUserBootstrapper, AWSIAMGroupBootstrapper] else []) @
    [ControllersPolicy] @
    (if ControlPlane.DisableCloudProviderPolicy (ControlPlane s)
     then [] else [ControlPlanePolicy]) @
    (if Nodes.DisableCloudProviderPolicy (Nodes s) then [] else [NodePolicy]) @
    (if EnableCSIPolicy (ControlPlane s) then [CSIPolicy] else []) @
    [AWSIAMRoleControlPlane, AWSIAMRoleControllers, AWSIAMRoleNodes,
     AWSIAMInstanceProfileControlPlane, AWSIAMInstanceProfileControllers,
     AWSIAMInstanceProfileNodes] @
    (if Disable (ManagedControlPlane s) then [] else [AWSIAMRoleEKSControlPlane])"
  using assms
  by (simp add: RenderCloudFormation_steps_def NewManagedName_eval Let_def if_Some
      snd_assign snd_if_assign snd_if_assign_else snd_if_assign2 cong: if_cong)

lemma Render_steps_distinct:
  assumes "Spec t = Some s" "NameSuffix s = Some x"
  shows "distinct (map fst (snd (the (RenderCloudFormation_steps e t))))"
  unfolding Render_steps_keys [OF assms]
  by (simp add: names_neq)

lemma map_of_rev_distinct:
  assumes "distinct (map fst xs)"
  shows "map_of (rev xs) = map_of xs"
proof
  fix k
  have d: "distinct (map fst (rev xs))"
    using assms by (simp only: rev_map [symmetric] distinct_rev)
  have "(map_of (rev xs) k = Some y) = (map_of xs k = Some y)" for y
    using assms d by simp
  then show "map_of (rev xs) k = map_of xs k"
    by (cases "map_of xs k") (auto simp add: option.exhaust)
qed

section \<open>Toggling one gate, relative to the methods of the other files\<close>

text \<open>
  Two configurations that differ only in the Control Plane group's toggle
  \<open>DisableCloudProviderPolicy\<close>, false in the first and true in the second. The methods
  of the other files that fill the other resources are parameters; when they return the
  same values for the two configurations, the second Resource Map is the first one without
  the entry \<open>ControlPlanePolicy\<close>. Whether they do is not decided by \<open>template.go\<close>.
\<close>

lemma Render_disable_control_plane_policy:
  assumes "Spec t1 = Some s" "NameSuffix s = Some x"
    and "\<not> ControlPlane.DisableCloudProviderPolicy (ControlPlane s)"
    and "Spec t2 = Some (s\<lparr>ControlPlane :=
           (ControlPlane s)\<lparr>ControlPlane.DisableCloudProviderPolicy := True\<rparr>\<rparr>)"
    and "bootstrapUserGroups e t2 = bootstrapUserGroups e t1"
    and "bootstrapUserPolicy e t2 = bootstrapUserPolicy e t1"
    and "controllersPolicy e t2 = controllersPolicy e t1"
    and "controllersPolicyGroups e t2 = controllersPolicyGroups e t1"
    and "controllersPolicyRoleAttachments e t2 = controllersPolicyRoleAttachments e t1"
    and "nodePolicy e t2 = nodePolicy e t1"
    and "cloudProviderNodeAwsRoles e t2 = cloudProviderNodeAwsRoles e t1"
    and "csiControllerPolicy e t2 = csiControllerPolicy e t1"
    and "csiControlPlaneAwsRoles e t2 = csiControlPlaneAwsRoles e t1"
    and "controlPlaneTrustPolicy e t2 = controlPlaneTrustPolicy e t1"
    and "controlPlanePolicies e t2 = controlPlanePolicies e t1"
    and "controllersTrustPolicy e t2 = controllersTrustPolicy e t1"
    and "nodeTrustPolicy e t2 = nodeTrustPolicy e t1"
    and "nodePolicies e t2 = nodePolicies e t1"
    and "eksControlPlanePolicies e t2 = eksControlPlanePolicies e t1"
  shows "\<exists>m1 m2 p. RenderCloudFormation e t1 = Some m1 \<and>
    RenderCloudFormation e t2 = Some m2 \<and>
    Resources m1 ControlPlanePolicy = Some (AWS_IAM_ManagedPolicy p) \<and>
    ManagedPolicy.Roles p = cloudProviderControlPlaneAwsRoles e t1 \<and>
    Resources m2 = (Resources m1)(ControlPlanePolicy := None)"
proof -
  let ?s2 = "s\<lparr>ControlPlane :=
    (ControlPlane s)\<lparr>ControlPlane.DisableCloudProviderPolicy := True\<rparr>\<rparr>"
  have x2: "NameSuffix ?s2 = Some x" using assms(2) by simp
  obtain m1 where m1: "RenderCloudFormation e t1 = Some m1"
    using Render_returns [OF assms(1,2)] by blast
  obtain m2 where m2: "RenderCloudFormation e t2 = Some m2"
    using Render_returns [OF assms(4) x2] by blast
  have policy: "\<exists>p. Resources (the (RenderCloudFormation e t1)) ControlPlanePolicy =
        Some (AWS_IAM_ManagedPolicy p) \<and>
      ManagedPolicy.Roles p = cloudProviderControlPlaneAwsRoles e t1"
    using assms(1,2,3) by (simp add: Render_simps names_neq cong: if_cong)
  have same: "Resources (the (RenderCloudFormation e t2)) k =
      ((Resources (the (RenderCloudFormation e t1)))(ControlPlanePolicy := None)) k" for k
  proof (cases "k = ControlPlanePolicy")
    case True
    have "Resources (the (RenderCloudFormation e t2)) ControlPlanePolicy = None"
      using assms(4) x2 by (simp add: Render_simps names_neq cong: if_cong)
    with True show ?thesis by simp
  next
    case False
    show ?thesis
      using False assms(1,2) assms(4) x2 assms(5-19)
      by (simp add: Render_simps cong: if_cong)
  qed
  then have "Resources (the (RenderCloudFormation e t2)) =
      (Resources (the (RenderCloudFormation e t1)))(ControlPlanePolicy := None)"
    by (rule ext)
  with m1 m2 policy show ?thesis by auto
qed

text \<open>
  Two configurations that differ only in the Managed Control Plane group's toggle
  \<open>Disable\<close>, false in the first and true in the second. The keys of the second
  Resource Map are those of the first without \<open>AWSIAMRoleEKSControlPlane\<close>; this part
  needs no assumption. When the five methods of the other files that fill the Roles
  control-plane, controllers and nodes return the same values for the two configurations,
  these three Roles are the same in both maps. Whether they do is not decided by
  \<open>template.go\<close>.
\<close>

lemma Render_disable_managed_control_plane:
  assumes "Spec t1 = Some s" "NameSuffix s = Some x"
    and "\<not> Disable (ManagedControlPlane s)"
    and "Spec t2 = Some (s\<lparr>ManagedControlPlane :=
           (ManagedControlPlane s)\<lparr>Disable := True\<rparr>\<rparr>)"
    and "controlPlaneTrustPolicy e t2 = controlPlaneTrustPolicy e t1"
    and "controlPlanePolicies e t2 = controlPlanePolicies e t1"
    and "controllersTrustPolicy e t2 = controllersTrustPolicy e t1"
    and "nodeTrustPolicy e t2 = nodeTrustPolicy e t1"
    and "nodePolicies e t2 = nodePolicies e t1"
  shows "\<exists>m1 m2 r r1 r2 r3. RenderCloudFormation e t1 = Some m1 \<and>
    RenderCloudFormation e t2 = Some m2 \<and>
    Resources m1 AWSIAMRoleEKSControlPlane = Some (AWS_IAM_Role r) \<and>
    Resources m2 AWSIAMRoleEKSControlPlane = None \<and>
    dom (Resources m2) = dom (Resources m1) - {AWSIAMRoleEKSControlPlane} \<and>
    Resources m1 AWSIAMRoleControlPlane = Some (AWS_IAM_Role r1) \<and>
    Resources m2 AWSIAMRoleControlPlane = Some (AWS_IAM_Role r1) \<and>
    Resources m1 AWSIAMRoleControllers = Some (AWS_IAM_Role r2) \<and>
    Resources m2 AWSIAMRoleControllers = Some (AWS_IAM_Role r2) \<and>
    Resources m1 AWSIAMRoleNodes = Some (AWS_IAM_Role r3) \<and>
    Resources m2 AWSIAMRoleNodes = Some (AWS_IAM_Role r3)"
proof -
  let ?s2 = "s\<lparr>ManagedControlPlane := (ManagedControlPlane s)\<lparr>Disable := True\<rparr>\<rparr>"
  let ?M1 = "the (RenderCloudFormation e t1)"
  let ?M2 = "the (RenderCloudFormation e t2)"
  have x2: "NameSuffix ?s2 = Some x" using assms(2) by simp
  obtain m1 where m1: "RenderCloudFormation e t1 = Some m1"
    using Render_returns [OF assms(1,2)] by blast
  obtain m2 where m2: "RenderCloudFormation e t2 = Some m2"
    using Render_returns [OF assms(4) x2] by blast
  have eks1: "\<exists>r. Resources ?M1 AWSIAMRoleEKSControlPlane = Some (AWS_IAM_Role r)"
    using Render_Role_iff [OF assms(1,2), of e AWSIAMRoleEKSControlPlane] assms(3) by simp
  have eks2: "Resources ?M2 AWSIAMRoleEKSControlPlane = None"
    using Render_in_dom [OF assms(4) x2, of e AWSIAMRoleEKSControlPlane]
    by (simp add: names_neq)
  have keys: "dom (Resources ?M2) = dom (Resources ?M1) - {AWSIAMRoleEKSControlPlane}"
  proof (rule set_eqI)
    fix k
    have "k \<in> dom (Resources ?M2) \<longleftrightarrow> Resources ?M2 k \<noteq> None"
      by (simp add: dom_def)
    also have "\<dots> \<longleftrightarrow> Resources ?M1 k \<noteq> None \<and> k \<noteq> AWSIAMRoleEKSControlPlane"
      unfolding Render_in_dom [OF assms(4) x2] Render_in_dom [OF assms(1,2)]
      using assms(3) by (auto simp add: names_neq)
    also have "\<dots> \<longleftrightarrow> k \<in> dom (Resources ?M1) - {AWSIAMRoleEKSControlPlane}"
      by (auto simp add: dom_def)
    finally show "k \<in> dom (Resources ?M2) \<longleftrightarrow>
      k \<in> dom (Resources ?M1) - {AWSIAMRoleEKSControlPlane}" .
  qed
  have cp: "\<exists>r. Resources ?M1 AWSIAMRoleControlPlane = Some (AWS_IAM_Role r) \<and>
      Resources ?M2 AWSIAMRoleControlPlane = Some (AWS_IAM_Role r)"
    using assms(1,2) assms(4) x2 assms(5,6)
    by (simp add: Render_simps names_neq cong: if_cong)
  have ctl: "\<exists>r. Resources ?M1 AWSIAMRoleControllers = Some (AWS_IAM_Role r) \<and>
      Resources ?M2 AWSIAMRoleControllers = Some (AWS_IAM_Role r)"
    using assms(1,2) assms(4) x2 assms(7)
    by (simp add: Render_simps names_neq cong: if_cong)
  have nodes: "\<exists>r. Resources ?M1 AWSIAMRoleNodes = Some (AWS_IAM_Role r) \<and>
      Resources ?M2 AWSIAMRoleNodes = Some (AWS_IAM_Role r)"
    using assms(1,2) assms(4) x2 assms(8,9)
    by (simp add: Render_simps names_neq cong: if_cong)
  from m1 m2 eks1 eks2 keys cp ctl nodes show ?thesis by auto
qed

section \<open>The claims\<close>

text \<open>
  C1, as the code has it. For every configuration (with non-nil pointers) the Resource Map
  that \<open>RenderCloudFormation\<close> returns holds the three Roles control-plane, controllers
  and nodes and, exactly when the Managed Control Plane group's disable toggle is false, a
  fourth Role under \<open>AWSIAMRoleEKSControlPlane\<close>: three or four Role resources. It holds
  exactly three InstanceProfile resources, and each InstanceProfile references exactly one
  Role, by \<open>cloudformation.Ref\<close> of a logical name under which the same map holds a Role.
\<close>

theorem Render_roles_and_profiles:
  assumes "Spec t = Some s" "NameSuffix s = Some x"
  shows "\<exists>m. RenderCloudFormation e t = Some m \<and>
    Role_names m =
      {AWSIAMRoleControlPlane, AWSIAMRoleControllers, AWSIAMRoleNodes} \<union>
      (if Disable (ManagedControlPlane s) then {} else {AWSIAMRoleEKSControlPlane}) \<and>
    card (Role_names m) = (if Disable (ManagedControlPlane s) then 3 else 4) \<and>
    InstanceProfile_names m =
      {AWSIAMInstanceProfileControlPlane, AWSIAMInstanceProfileControllers,
       AWSIAMInstanceProfileNodes} \<and>
    card (InstanceProfile_names m) = 3 \<and>
    (\<forall>k p. Resources m k = Some (AWS_IAM_InstanceProfile p) \<longrightarrow>
       (\<exists>k' r. InstanceProfile.Roles p = [Ref e k'] \<and>
          Resources m k' = Some (AWS_IAM_Role r)))"
proof -
  obtain m where m: "RenderCloudFormation e t = Some m"
    using Render_returns [OF assms] by blast
  then have the_m: "the (RenderCloudFormation e t) = m" by simp
  have roles: "Role_names m =
      {AWSIAMRoleControlPlane, AWSIAMRoleControllers, AWSIAMRoleNodes} \<union>
      (if Disable (ManagedControlPlane s) then {} else {AWSIAMRoleEKSControlPlane})"
    unfolding Role_names_def
    using Render_Role_iff [OF assms, of e] the_m by auto
  have roles_card: "card (Role_names m) = (if Disable (ManagedControlPlane s) then 3 else 4)"
    unfolding roles by (simp add: names_neq)
  have profiles: "InstanceProfile_names m =
      {AWSIAMInstanceProfileControlPlane, AWSIAMInstanceProfileControllers,
       AWSIAMInstanceProfileNodes}"
    unfolding InstanceProfile_names_def
    using Render_InstanceProfile_iff [OF assms, of e] the_m by auto
  have profiles_card: "card (InstanceProfile_names m) = 3"
    unfolding profiles by (simp add: names_neq)
  have refs: "\<exists>k' r. InstanceProfile.Roles p = [Ref e k'] \<and>
      Resources m k' = Some (AWS_IAM_Role r)"
    if "Resources m k = Some (AWS_IAM_InstanceProfile p)" for k p
  proof -
    have "InstanceProfile.Roles p = [Ref e AWSIAMRoleControlPlane] \<or>
          InstanceProfile.Roles p = [Ref e AWSIAMRoleControllers] \<or>
          InstanceProfile.Roles p = [Ref e AWSIAMRoleNodes]"
      using Render_InstanceProfile_Roles [OF assms, of e k p] that the_m by simp
    moreover have "\<exists>r. Resources m AWSIAMRoleControlPlane = Some (AWS_IAM_Role r)"
      and "\<exists>r. Resources m AWSIAMRoleControllers = Some (AWS_IAM_Role r)"
      and "\<exists>r. Resources m AWSIAMRoleNodes = Some (AWS_IAM_Role r)"
      using Render_Role_iff [OF assms, of e] the_m by simp_all
    ultimately show ?thesis by blast
  qed
  from m roles roles_card profiles profiles_card refs show ?thesis by blast
qed

theorem Render_roles_and_profiles_witness:
  "Spec example_Template = Some example_Spec \<and>
   NameSuffix example_Spec = Some ''.cluster-api'' \<and>
   (\<exists>m. RenderCloudFormation example_externals example_Template = Some m \<and>
      Role_names m =
        {AWSIAMRoleControlPlane, AWSIAMRoleControllers, AWSIAMRoleNodes,
         AWSIAMRoleEKSControlPlane} \<and>
      card (Role_names m) = 4 \<and>
      InstanceProfile_names m =
        {AWSIAMInstanceProfileControlPlane, AWSIAMInstanceProfileControllers,
         AWSIAMInstanceProfileNodes} \<and>
      card (InstanceProfile_names m) = 3)"
proof -
  have d: "\<not> Disable (ManagedControlPlane example_Spec)"
    by (simp add: example_Spec_def)
  show ?thesis
    using Render_roles_and_profiles
      [OF example_Spec_nonnil example_NameSuffix, of example_externals]
      example_Spec_nonnil example_NameSuffix d
    by auto
qed

text \<open>
  The claim as the spec states it (exactly three Role resources) fails on the concrete
  configuration, whose Managed Control Plane group is not disabled: the map holds a Role
  under \<open>AWSIAMRoleEKSControlPlane\<close> too, four Roles in all.
\<close>

theorem Render_three_roles_counterexample:
  "RenderCloudFormation example_externals example_Template \<noteq> None \<and>
   Resources (the (RenderCloudFormation example_externals example_Template))
     AWSIAMRoleEKSControlPlane =
     Some (AWS_IAM_Role
       \<lparr>RoleName = ''eks-controlplane'',
        AssumeRolePolicyDocument = example_document,
        Role.ManagedPolicyArns = [''arn:aws:iam::aws:policy/AmazonEKSClusterPolicy''],
        Role.Policies = [],
        Role.Tags = []\<rparr>) \<and>
   card (Role_names (the (RenderCloudFormation example_externals example_Template))) = 4"
proof -
  have r: "RenderCloudFormation example_externals example_Template \<noteq> None"
    using Render_returns [OF example_Spec_nonnil example_NameSuffix, of example_externals]
    by auto
  have l: "Resources (the (RenderCloudFormation example_externals example_Template))
     AWSIAMRoleEKSControlPlane =
     Some (AWS_IAM_Role
       \<lparr>RoleName = ''eks-controlplane'',
        AssumeRolePolicyDocument = example_document,
        Role.ManagedPolicyArns = [''arn:aws:iam::aws:policy/AmazonEKSClusterPolicy''],
        Role.Policies = [],
        Role.Tags = []\<rparr>)"
    using example_Spec_nonnil example_NameSuffix
    by (simp add: Render_simps names_neq example_externals_def example_Spec_def)
  have "Role_names (the (RenderCloudFormation example_externals example_Template)) =
      {AWSIAMRoleControlPlane, AWSIAMRoleControllers, AWSIAMRoleNodes,
       AWSIAMRoleEKSControlPlane}"
    unfolding Role_names_def
    using Render_Role_iff [OF example_Spec_nonnil example_NameSuffix, of example_externals]
    by (auto simp add: example_Spec_def)
  then have c:
    "card (Role_names (the (RenderCloudFormation example_externals example_Template))) = 4"
    by (simp add: names_neq)
  from r l c show ?thesis by blast
qed

text \<open>
  C2. For every configuration with the Bootstrap User group's enable toggle false (and
  non-nil pointers), the Resource Map that \<open>RenderCloudFormation\<close> returns has no entry
  under \<open>AWSIAMUserBootstrapper\<close> and none under \<open>AWSIAMGroupBootstrapper\<close>, and holds
  no User and no Group resource under any key.
\<close>

theorem Render_no_bootstrap_user:
  assumes "Spec t = Some s" "NameSuffix s = Some x" "\<not> Enable (BootstrapUser s)"
  shows "\<exists>m. RenderCloudFormation e t = Some m \<and>
    Resources m AWSIAMUserBootstrapper = None \<and>
    Resources m AWSIAMGroupBootstrapper = None \<and>
    (\<forall>k u. Resources m k \<noteq> Some (AWS_IAM_User u)) \<and>
    (\<forall>k g. Resources m k \<noteq> Some (AWS_IAM_Group g))"
proof -
  obtain m where m: "RenderCloudFormation e t = Some m"
    using Render_returns [OF assms(1,2)] by blast
  then have the_m: "the (RenderCloudFormation e t) = m" by simp
  have "Resources (the (RenderCloudFormation e t)) AWSIAMUserBootstrapper = None"
    and "Resources (the (RenderCloudFormation e t)) AWSIAMGroupBootstrapper = None"
    using assms by (simp_all add: Render_simps names_neq cong: if_cong)
  then have "Resources m AWSIAMUserBootstrapper = None"
    and "Resources m AWSIAMGroupBootstrapper = None"
    using the_m by simp_all
  moreover have "\<forall>k u. Resources m k \<noteq> Some (AWS_IAM_User u)"
    using Render_no_User_Group(1) [OF assms] the_m by metis
  moreover have "\<forall>k g. Resources m k \<noteq> Some (AWS_IAM_Group g)"
    using Render_no_User_Group(2) [OF assms] the_m by metis
  ultimately show ?thesis using m by blast
qed

theorem Render_no_bootstrap_user_witness:
  "\<not> Enable (BootstrapUser (example_Spec\<lparr>BootstrapUser :=
        (BootstrapUser example_Spec)\<lparr>Enable := False\<rparr>\<rparr>)) \<and>
   (\<exists>m. RenderCloudFormation example_externals
        \<lparr>Spec = Some (example_Spec\<lparr>BootstrapUser :=
          (BootstrapUser example_Spec)\<lparr>Enable := False\<rparr>\<rparr>)\<rparr> = Some m \<and>
      Resources m AWSIAMUserBootstrapper = None \<and>
      Resources m AWSIAMGroupBootstrapper = None)"
proof -
  let ?s = "example_Spec\<lparr>BootstrapUser := (BootstrapUser example_Spec)\<lparr>Enable := False\<rparr>\<rparr>"
  have h1: "Spec \<lparr>Spec = Some ?s\<rparr> = Some ?s" by simp
  have h2: "NameSuffix ?s = Some ''.cluster-api''" by (simp add: example_Spec_def)
  have h3: "\<not> Enable (BootstrapUser ?s)" by simp
  show ?thesis
    using h3 Render_no_bootstrap_user [OF h1 h2 h3, of example_externals] by blast
qed

text \<open>
  C3. For every prefix, base name and suffix, \<open>NewManagedName\<close> returns the concatenation
  prefix + base + suffix (the suffix pointer being non-nil); with prefix \<open>test-\<close>, base
  \<open>nodes\<close> and suffix \<open>.cluster-api\<close> it returns \<open>test-nodes.cluster-api\<close>.
\<close>

theorem NewManagedName_concat:
  "Spec t = Some s \<Longrightarrow> NameSuffix s = Some suffix \<Longrightarrow>
   NewManagedName t base = Some (NamePrefix s @ base @ suffix)"
  by (simp add: NewManagedName_def)

theorem NewManagedName_concat_witness:
  "Spec example_Template = Some example_Spec \<and>
   NameSuffix example_Spec = Some ''.cluster-api'' \<and>
   NamePrefix example_Spec = ''test-'' \<and>
   NewManagedName example_Template ''nodes'' = Some ''test-nodes.cluster-api''"
proof -
  have p: "NamePrefix example_Spec = ''test-''"
    by (simp add: example_Spec_def)
  show ?thesis
    using NewManagedName_concat [OF example_Spec_nonnil example_NameSuffix, of "''nodes''"]
      example_Spec_nonnil example_NameSuffix p
    by simp
qed

text \<open>
  C4. For every service principal identifier \<open>p\<close>, \<open>assumeRolePolicy\<close> returns a Policy
  Document with exactly one statement, whose effect is Allow, whose principal is the
  service principal \<open>p\<close> (and no other), and whose action list is the single action
  \<open>sts:AssumeRole\<close>.
\<close>

theorem assumeRolePolicy_single_statement:
  "\<exists>st. Statement (assumeRolePolicy e p) = [st] \<and>
        Effect st = EffectAllow \<and>
        Principal st = [PrincipalService \<mapsto> [p]] \<and>
        dom (Principal st) = {PrincipalService} \<and>
        Action st = [''sts:AssumeRole'']"
  by (simp add: assumeRolePolicy_def)

text \<open>
  C8. When the pointers of the configuration are non-nil (\<open>t.Spec\<close> and the name suffix
  that \<open>NewManagedName\<close> dereferences), \<open>RenderCloudFormation\<close> returns a Resource Map;
  when one of them is nil it panics, and returns no map. So it returns no map exactly when
  a pointer is nil.
\<close>

theorem Render_panics_iff_nil:
  "(RenderCloudFormation e t = None) =
   (Spec t = None \<or> (\<exists>s. Spec t = Some s \<and> NameSuffix s = None))"
proof (cases "Spec t")
  case None
  then show ?thesis by (simp add: Render_nil_Spec)
next
  case (Some s)
  show ?thesis
  proof (cases "NameSuffix s")
    case None
    with Some show ?thesis by (simp add: Render_nil_NameSuffix)
  next
    case (Some x)
    with \<open>Spec t = Some s\<close> Render_returns [of t s x e] show ?thesis by auto
  qed
qed

theorem Render_panics_iff_nil_witness:
  "RenderCloudFormation example_externals example_Template \<noteq> None \<and>
   RenderCloudFormation example_externals \<lparr>Spec = None\<rparr> = None \<and>
   RenderCloudFormation example_externals
     \<lparr>Spec = Some (example_Spec\<lparr>NameSuffix := None\<rparr>)\<rparr> = None"
  using Render_panics_iff_nil [of example_externals example_Template]
    Render_panics_iff_nil [of example_externals "\<lparr>Spec = None\<rparr>"]
    Render_panics_iff_nil
      [of example_externals "\<lparr>Spec = Some (example_Spec\<lparr>NameSuffix := None\<rparr>)\<rparr>"]
    example_Spec_nonnil example_NameSuffix
  by simp

text \<open>
  C9. For every configuration with the Bootstrap User group enabled, the User resource
  emitted under \<open>AWSIAMUserBootstrapper\<close> has as its list of attached managed-policy
  ARNs the extra policy attachments of the Control Plane group; so a configuration that
  differs in the Control Plane group's extra attachments alone (they are \<open>a\<close>) gives a
  User resource whose list is \<open>a\<close>.
\<close>

theorem Render_bootstrap_user_attachments:
  assumes "Spec t = Some s" "NameSuffix s = Some x" "Enable (BootstrapUser s)"
    and "Spec t' = Some (s\<lparr>ControlPlane :=
           (ControlPlane s)\<lparr>ControlPlane.ExtraPolicyAttachments := a\<rparr>\<rparr>)"
  shows "\<exists>m u m' u'. RenderCloudFormation e t = Some m \<and>
    Resources m AWSIAMUserBootstrapper = Some (AWS_IAM_User u) \<and>
    User.ManagedPolicyArns u = ControlPlane.ExtraPolicyAttachments (ControlPlane s) \<and>
    RenderCloudFormation e t' = Some m' \<and>
    Resources m' AWSIAMUserBootstrapper = Some (AWS_IAM_User u') \<and>
    User.ManagedPolicyArns u' = a"
proof -
  let ?s' = "s\<lparr>ControlPlane := (ControlPlane s)\<lparr>ControlPlane.ExtraPolicyAttachments := a\<rparr>\<rparr>"
  have x': "NameSuffix ?s' = Some x" using assms(2) by simp
  obtain m where m: "RenderCloudFormation e t = Some m"
    using Render_returns [OF assms(1,2)] by blast
  obtain m' where m': "RenderCloudFormation e t' = Some m'"
    using Render_returns [OF assms(4) x'] by blast
  have "\<exists>u. Resources (the (RenderCloudFormation e t)) AWSIAMUserBootstrapper =
          Some (AWS_IAM_User u) \<and>
        User.ManagedPolicyArns u = ControlPlane.ExtraPolicyAttachments (ControlPlane s)"
    using assms(1,2,3) by (simp add: Render_simps names_neq cong: if_cong)
  moreover have "\<exists>u'. Resources (the (RenderCloudFormation e t')) AWSIAMUserBootstrapper =
          Some (AWS_IAM_User u') \<and> User.ManagedPolicyArns u' = a"
    using assms(4) x' assms(3) by (simp add: Render_simps names_neq cong: if_cong)
  ultimately show ?thesis using m m' by auto
qed

theorem Render_bootstrap_user_attachments_witness:
  "Enable (BootstrapUser example_Spec) \<and>
   (\<exists>m u m' u'. RenderCloudFormation example_externals example_Template = Some m \<and>
      Resources m AWSIAMUserBootstrapper = Some (AWS_IAM_User u) \<and>
      User.ManagedPolicyArns u = [''arn:aws:iam::aws:policy/Extra''] \<and>
      RenderCloudFormation example_externals
        \<lparr>Spec = Some (example_Spec\<lparr>ControlPlane := (ControlPlane example_Spec)
           \<lparr>ControlPlane.ExtraPolicyAttachments := []\<rparr>\<rparr>)\<rparr> = Some m' \<and>
      Resources m' AWSIAMUserBootstrapper = Some (AWS_IAM_User u') \<and>
      User.ManagedPolicyArns u' = [])"
proof -
  let ?s' = "example_Spec\<lparr>ControlPlane := (ControlPlane example_Spec)
           \<lparr>ControlPlane.ExtraPolicyAttachments := []\<rparr>\<rparr>"
  have h3: "Enable (BootstrapUser example_Spec)" by (simp add: example_Spec_def)
  have h4: "Spec \<lparr>Spec = Some ?s'\<rparr> = Some ?s'" by simp
  have a: "ControlPlane.ExtraPolicyAttachments (ControlPlane example_Spec) =
      [''arn:aws:iam::aws:policy/Extra'']"
    by (simp add: example_Spec_def)
  show ?thesis
    using h3 a Render_bootstrap_user_attachments
      [OF example_Spec_nonnil example_NameSuffix h3 h4, of example_externals]
    by simp
qed

text \<open>
  C10. The thirteen logical names are pairwise distinct. \<open>RenderCloudFormation_steps\<close>
  is \<open>RenderCloudFormation\<close> with a log of the assignments it executes, and its
  template is the one \<open>RenderCloudFormation\<close> returns. No key is assigned twice, so no
  assignment overwrites an earlier one: every logged resource is in the final map under
  its key, the final map is exactly the logged assignments, and it has as many entries as
  assignments were executed. The keys are the names of the executed assignments: seven
  unconditional ones, two under the bootstrap user's toggle, one under each of the four
  other toggles.
\<close>

theorem Render_one_entry_per_step:
  assumes "Spec t = Some s" "NameSuffix s = Some x"
  shows "distinct
      [AWSIAMUserBootstrapper, AWSIAMGroupBootstrapper, ControllersPolicy,
       ControlPlanePolicy, NodePolicy, CSIPolicy, AWSIAMRoleControlPlane,
       AWSIAMRoleControllers, AWSIAMRoleNodes, AWSIAMInstanceProfileControlPlane,
       AWSIAMInstanceProfileControllers, AWSIAMInstanceProfileNodes,
       AWSIAMRoleEKSControlPlane] \<and>
    (\<exists>m steps. RenderCloudFormation_steps e t = Some (m, steps) \<and>
      RenderCloudFormation e t = Some m \<and>
      distinct (map fst steps) \<and>
      (\<forall>(k, r) \<in> set steps. Resources m k = Some r) \<and>
      Resources m = map_of steps \<and>
      dom (Resources m) = fst ` set steps \<and>
      card (dom (Resources m)) = length steps \<and>
      dom (Resources m) =
        (if Enable (BootstrapUser s)
         then {AWSIAMUserBootstrapper, AWSIAMGroupBootstrapper} else {}) \<union>
        {ControllersPolicy} \<union>
        (if ControlPlane.DisableCloudProviderPolicy (ControlPlane s)
         then {} else {ControlPlanePolicy}) \<union>
        (if Nodes.DisableCloudProviderPolicy (Nodes s) then {} else {NodePolicy}) \<union>
        (if EnableCSIPolicy (ControlPlane s) then {CSIPolicy} else {}) \<union>
        {AWSIAMRoleControlPlane, AWSIAMRoleControllers, AWSIAMRoleNodes,
         AWSIAMInstanceProfileControlPlane, AWSIAMInstanceProfileControllers,
         AWSIAMInstanceProfileNodes} \<union>
        (if Disable (ManagedControlPlane s) then {} else {AWSIAMRoleEKSControlPlane}) \<and>
      card (dom (Resources m)) =
        (if Enable (BootstrapUser s) then 2 else 0) + 1 +
        (if ControlPlane.DisableCloudProviderPolicy (ControlPlane s) then 0 else 1) +
        (if Nodes.DisableCloudProviderPolicy (Nodes s) then 0 else 1) +
        (if EnableCSIPolicy (ControlPlane s) then 1 else 0) + 6 +
        (if Disable (ManagedControlPlane s) then 0 else 1))"
proof -
  obtain m where m: "RenderCloudFormation e t = Some m"
    using Render_returns [OF assms] by blast
  then have the_m: "the (RenderCloudFormation e t) = m" by simp
  have "map_option fst (RenderCloudFormation_steps e t) = Some m"
    using Render_steps_fst [of e t] m by simp
  then obtain st where st: "RenderCloudFormation_steps e t = Some st" and fst_st: "fst st = m"
    by (cases "RenderCloudFormation_steps e t") auto
  define steps where "steps = snd st"
  have pair: "st = (m, steps)"
    using fst_st steps_def by (cases st) simp
  have the_st: "the (RenderCloudFormation_steps e t) = (m, steps)"
    using st pair by simp
  have dist: "distinct (map fst steps)"
    using Render_steps_distinct [OF assms, of e] the_st by simp
  have "log_agrees (m, steps)"
    using Render_steps_log_agrees [OF assms, of e] the_st by simp
  then have "Resources m = map_of (rev steps)"
    by (simp add: log_agrees_def)
  then have map: "Resources m = map_of steps"
    using map_of_rev_distinct [OF dist] by simp
  have each: "\<forall>(k, r) \<in> set steps. Resources m k = Some r"
    using dist map by auto
  have keys: "dom (Resources m) = fst ` set steps"
    unfolding map by (rule dom_map_of_conv_image_fst)
  have "card (fst ` set steps) = card (set (map fst steps))"
    by simp
  also have "\<dots> = length (map fst steps)"
    using dist by (rule distinct_card)
  finally have count: "card (dom (Resources m)) = length steps"
    unfolding keys by simp
  have d: "dom (Resources m) =
        (if Enable (BootstrapUser s)
         then {AWSIAMUserBootstrapper, AWSIAMGroupBootstrapper} else {}) \<union>
        {ControllersPolicy} \<union>
        (if ControlPlane.DisableCloudProviderPolicy (ControlPlane s)
         then {} else {ControlPlanePolicy}) \<union>
        (if Nodes.DisableCloudProviderPolicy (Nodes s) then {} else {NodePolicy}) \<union>
        (if EnableCSIPolicy (ControlPlane s) then {CSIPolicy} else {}) \<union>
        {AWSIAMRoleControlPlane, AWSIAMRoleControllers, AWSIAMRoleNodes,
         AWSIAMInstanceProfileControlPlane, AWSIAMInstanceProfileControllers,
         AWSIAMInstanceProfileNodes} \<union>
        (if Disable (ManagedControlPlane s) then {} else {AWSIAMRoleEKSControlPlane})"
    (is "_ = ?D")
  proof (rule set_eqI)
    fix k
    have "k \<in> dom (Resources m) \<longleftrightarrow> Resources m k \<noteq> None"
      by (simp add: dom_def)
    also have "\<dots> \<longleftrightarrow> k \<in> ?D"
      unfolding the_m [symmetric] Render_in_dom [OF assms]
      by auto
    finally show "k \<in> dom (Resources m) \<longleftrightarrow> k \<in> ?D" .
  qed
  have "card ?D =
        (if Enable (BootstrapUser s) then 2 else 0) + 1 +
        (if ControlPlane.DisableCloudProviderPolicy (ControlPlane s) then 0 else 1) +
        (if Nodes.DisableCloudProviderPolicy (Nodes s) then 0 else 1) +
        (if EnableCSIPolicy (ControlPlane s) then 1 else 0) + 6 +
        (if Disable (ManagedControlPlane s) then 0 else 1)"
    by (simp add: names_neq)
  then have c: "card (dom (Resources m)) =
        (if Enable (BootstrapUser s) then 2 else 0) + 1 +
        (if ControlPlane.DisableCloudProviderPolicy (ControlPlane s) then 0 else 1) +
        (if Nodes.DisableCloudProviderPolicy (Nodes s) then 0 else 1) +
        (if EnableCSIPolicy (ControlPlane s) then 1 else 0) + 6 +
        (if Disable (ManagedControlPlane s) then 0 else 1)"
    using d by simp
  have "\<exists>m steps. RenderCloudFormation_steps e t = Some (m, steps) \<and>
      RenderCloudFormation e t = Some m \<and>
      distinct (map fst steps) \<and>
      (\<forall>(k, r) \<in> set steps. Resources m k = Some r) \<and>
      Resources m = map_of steps \<and>
      dom (Resources m) = fst ` set steps \<and>
      card (dom (Resources m)) = length steps \<and>
      dom (Resources m) = ?D \<and>
      card (dom (Resources m)) =
        (if Enable (BootstrapUser s) then 2 else 0) + 1 +
        (if ControlPlane.DisableCloudProviderPolicy (ControlPlane s) then 0 else 1) +
        (if Nodes.DisableCloudProviderPolicy (Nodes s) then 0 else 1) +
        (if EnableCSIPolicy (ControlPlane s) then 1 else 0) + 6 +
        (if Disable (ManagedControlPlane s) then 0 else 1)"
    using st pair m dist each map keys count d c by blast
  with logical_names_distinct show ?thesis by simp
qed

theorem Render_one_entry_per_step_witness:
  "Spec example_Template = Some example_Spec \<and>
   NameSuffix example_Spec = Some ''.cluster-api'' \<and>
   (\<exists>m steps. RenderCloudFormation_steps example_externals example_Template =
        Some (m, steps) \<and>
      RenderCloudFormation example_externals example_Template = Some m \<and>
      distinct (map fst steps) \<and>
      Resources m = map_of steps \<and>
      length steps = 13 \<and>
      card (dom (Resources m)) = 13)"
proof -
  have "Enable (BootstrapUser example_Spec)"
    and "\<not> ControlPlane.DisableCloudProviderPolicy (ControlPlane example_Spec)"
    and "\<not> Nodes.DisableCloudProviderPolicy (Nodes example_Spec)"
    and "EnableCSIPolicy (ControlPlane example_Spec)"
    and "\<not> Disable (ManagedControlPlane example_Spec)"
    by (simp_all add: example_Spec_def)
  then show ?thesis
    using Render_one_entry_per_step
      [OF example_Spec_nonnil example_NameSuffix, of example_externals]
      example_Spec_nonnil example_NameSuffix
    by auto
qed

end
